theory Spec2Isabelle
  imports Complex_Main
begin

section \<open>Values of the program\<close>

text \<open>
  The program (\<^verbatim>\<open>src/rps.js\<close>) works on the list of move labels given on the command
  line. A label is a string; an array read that misses (\<^verbatim>\<open>moves[-1]\<close>,
  \<^verbatim>\<open>moves[1.5]\<close>) yields \<^verbatim>\<open>undefined\<close>.
\<close>

datatype jsval = Undefined | Str string

text \<open>
  The three results. \<^verbatim>\<open>GameLogic.determineWinner\<close> returns them as the messages
  \<^verbatim>\<open>It's a draw!\<close>, \<^verbatim>\<open>You won!\<close> and \<^verbatim>\<open>Computer won!\<close>;
  \<^verbatim>\<open>RPSHelper.determineOutcome\<close> returns them as the table cells \<^verbatim>\<open>Draw\<close>,
  \<^verbatim>\<open>Win\<close> and \<^verbatim>\<open>Lose\<close>. Both are from the user's point of view.
\<close>

datatype outcome = Draw | Win | Lose

fun winnerMessage :: "outcome \<Rightarrow> string" where
  "winnerMessage Draw = ''It's a draw!''"
| "winnerMessage Win = ''You won!''"
| "winnerMessage Lose = ''Computer won!''"

fun cellText :: "outcome \<Rightarrow> string" where
  "cellText Draw = ''Draw''"
| "cellText Win = ''Win''"
| "cellText Lose = ''Lose''"

text \<open>
  The program has one error class of its own, \<^verbatim>\<open>InvalidInputError\<close>, thrown with one of
  two messages: the usage text of \<^verbatim>\<open>main\<close> and the text
  \<^verbatim>\<open>Please choose a valid move by entering an available number.\<close> shared by
  \<^verbatim>\<open>validateUserInput\<close> and \<^verbatim>\<open>determineWinner\<close>. \<^verbatim>\<open>TypeError\<close> is what
  \<^verbatim>\<open>hmac.update(undefined)\<close> throws.
\<close>

datatype message = UsageText | ChooseValidMoveText

datatype error = InvalidInputError message | TypeError

section \<open>Array operations of the language\<close>

text \<open>\<^verbatim>\<open>Array.prototype.indexOf\<close>: the first position holding the value, or -1.\<close>

fun indexOfFrom :: "string list \<Rightarrow> jsval \<Rightarrow> int \<Rightarrow> int" where
  "indexOfFrom [] v k = - 1"
| "indexOfFrom (x # xs) v k = (if Str x = v then k else indexOfFrom xs v (k + 1))"

definition indexOf :: "string list \<Rightarrow> jsval \<Rightarrow> int" where
  "indexOf xs v = indexOfFrom xs v 0"

text \<open>
  \<^verbatim>\<open>Array.prototype.slice(start, end)\<close>: a negative bound counts from the end of the
  array, every bound is clamped to the array, and an empty range gives the empty array.
\<close>

definition slice :: "'a list \<Rightarrow> int \<Rightarrow> int \<Rightarrow> 'a list" where
  "slice xs start fin =
     (let len = int (length xs);
          k = (if start < 0 then max (len + start) 0 else min start len);
          final = (if fin < 0 then max (len + fin) 0 else min fin len)
      in take (nat (final - k)) (drop (nat k) xs))"

text \<open>\<^verbatim>\<open>Array.prototype.includes\<close> on an array of labels.\<close>

definition arrayIncludes :: "string list \<Rightarrow> jsval \<Rightarrow> bool" where
  "arrayIncludes xs v = (v \<in> set (map Str xs))"

section \<open>GameLogic\<close>

text \<open>
  \<^verbatim>\<open>GameLogic.determineWinner(userMove, computerMove)\<close>, with \<^verbatim>\<open>this.moves\<close> as the
  first argument. The moves that win are taken by two slices of the array: the \<open>half\<close>
  moves after the computer's, and the moves from the start of the array up to
  \<open>computerIndex - half\<close>.
\<close>

definition determineWinner :: "string list \<Rightarrow> jsval \<Rightarrow> jsval \<Rightarrow> error + outcome" where
  "determineWinner moves userMove computerMove =
     (let n = int (length moves);
          half = n div 2;
          userIndex = indexOf moves userMove;
          computerIndex = indexOf moves computerMove
      in if userIndex = - 1 \<or> computerIndex = - 1
         then Inl (InvalidInputError ChooseValidMoveText)
         else
           let winningMoves =
                 slice moves (computerIndex + 1) (computerIndex + 1 + half)
                 @ slice moves 0 (computerIndex - half)
           in if userMove = computerMove then Inr Draw
              else if arrayIncludes winningMoves userMove then Inr Win
              else Inr Lose)"

section \<open>RPSHelper\<close>

text \<open>
  \<^verbatim>\<open>RPSHelper.determineOutcome(indexA, indexB, n)\<close>. The remainder \<^verbatim>\<open>%\<close> takes the sign
  of its left operand and is \<^verbatim>\<open>NaN\<close> for \<open>n = 0\<close>, where both comparisons fail.
  The comparison \<^verbatim>\<open>diff <= n / 2\<close> is against the exact half of \<open>n\<close> (halving is exact
  in binary floating point), written here as \<open>2 * diff \<le> n\<close>.
\<close>

definition jsRem :: "int \<Rightarrow> int \<Rightarrow> int" where
  "jsRem a b = sgn a * (\<bar>a\<bar> mod \<bar>b\<bar>)"

definition determineOutcome :: "int \<Rightarrow> int \<Rightarrow> int \<Rightarrow> outcome" where
  "determineOutcome indexA indexB n =
     (if n = 0 then Lose
      else let diff = jsRem (indexB - indexA + n) n
           in if diff = 0 then Draw
              else if 2 * diff \<le> n then Win
              else Lose)"

text \<open>
  A row of the table is the label of its move followed by one cell for every move.
\<close>

datatype cell = Label string | Cell outcome

definition generateTable :: "string list \<Rightarrow> cell list list" where
  "generateTable moves =
     map (\<lambda>i. Label (moves ! i)
               # map (\<lambda>j. Cell (determineOutcome (int i) (int j) (int (length moves))))
                   [0..<length moves])
       [0..<length moves]"

section \<open>Numbers of the language\<close>

text \<open>
  The numbers the session handles: \<^verbatim>\<open>NaN\<close>, the two infinities and the finite values,
  held as exact rationals. Negative zero is not told apart from zero: the program only
  compares numbers and subtracts one from them.
\<close>

datatype jsnum = NaN | NegInf | PosInf | Num rat

fun isNaN :: "jsnum \<Rightarrow> bool" where
  "isNaN NaN = True"
| "isNaN _ = False"

text \<open>The comparison \<^verbatim>\<open>a < b\<close>; it is false whenever an operand is \<^verbatim>\<open>NaN\<close>.\<close>

fun jsLess :: "jsnum \<Rightarrow> jsnum \<Rightarrow> bool" where
  "jsLess NaN _ = False"
| "jsLess _ NaN = False"
| "jsLess (Num a) (Num b) = (a < b)"
| "jsLess NegInf NegInf = False"
| "jsLess NegInf _ = True"
| "jsLess _ NegInf = False"
| "jsLess PosInf _ = False"
| "jsLess _ PosInf = True"

text \<open>The subtraction \<^verbatim>\<open>a - k\<close> of a finite \<open>k\<close>.\<close>

fun jsMinus :: "jsnum \<Rightarrow> rat \<Rightarrow> jsnum" where
  "jsMinus (Num a) k = Num (a - k)"
| "jsMinus v k = v"

text \<open>
  The array read \<^verbatim>\<open>xs[v]\<close> for a number \<open>v\<close>: an element when \<open>v\<close> is an integer
  within the array, \<^verbatim>\<open>undefined\<close> otherwise (also for \<open>-1\<close>, \<open>1.5\<close> and \<^verbatim>\<open>NaN\<close>).
\<close>

fun arrayGet :: "string list \<Rightarrow> jsnum \<Rightarrow> jsval" where
  "arrayGet xs (Num q) =
     (if q = of_int \<lfloor>q\<rfloor> \<and> 0 \<le> q \<and> q < of_nat (length xs)
      then Str (xs ! nat \<lfloor>q\<rfloor>) else Undefined)"
| "arrayGet xs v = Undefined"

section \<open>The environment and the world\<close>

text \<open>
  What the program takes from its platform: the keyed hash and the random bytes of
  \<^verbatim>\<open>node:crypto\<close> (reached through \<^verbatim>\<open>CryptoProvider\<close>), \<^verbatim>\<open>Math.random\<close> and the
  conversion \<^verbatim>\<open>Number\<close>.
  \<^item> \<open>createHmac e algorithm key message\<close> is the hex digest of
    \<^verbatim>\<open>createHmac(algorithm, key).update(message).digest('hex')\<close>;
  \<^item> \<open>randomBytes e k size\<close> is the hex string of the \<open>k\<close>-th call of
    \<^verbatim>\<open>randomBytes(size)\<close>;
  \<^item> \<open>randomIndex e k n\<close> is the value of \<^verbatim>\<open>Math.floor(Math.random() * n)\<close> at the
    \<open>k\<close>-th call of \<^verbatim>\<open>Math.random\<close>; as \<^verbatim>\<open>Math.random()\<close> lies in \<open>[0, 1)\<close>, it lies
    in \<open>[0, n)\<close> for \<open>n > 0\<close>;
  \<^item> \<open>toNumber e s\<close> is the value of \<^verbatim>\<open>Number(s)\<close>.
\<close>

record env =
  createHmac :: "string \<Rightarrow> string \<Rightarrow> string \<Rightarrow> string"
  randomBytes :: "nat \<Rightarrow> nat \<Rightarrow> string"
  randomIndex :: "nat \<Rightarrow> nat \<Rightarrow> int"
  toNumber :: "string \<Rightarrow> jsnum"

text \<open>
  The lines the program writes, by \<^verbatim>\<open>console.log\<close>, \<^verbatim>\<open>console.error\<close> and the
  question of \<^verbatim>\<open>readline\<close>; colours and padding are left out.
\<close>

datatype line =
    GameIntro
  | HmacLine string
  | AvailableMoves
  | MoveOption nat string
  | ExitOption
  | HelpOption
  | Prompt string
  | HelpMenu
  | TableCaption
  | TableLine nat
  | TableHeader "string list"
  | TableRow "cell list"
  | Exiting
  | YourMoveLine jsval
  | ComputerMoveLine jsval
  | ResultLine outcome
  | HmacKeyLine string
  | ErrorLine error

text \<open>
  The world of one run of the process: the lines still to be typed on standard input, the
  lines written so far, and how many times \<^verbatim>\<open>randomBytes\<close> and \<^verbatim>\<open>Math.random\<close> have
  been called.
\<close>

record world =
  stdin :: "string list"
  console :: "line list"
  keysDrawn :: nat
  randomsDrawn :: nat

definition start :: "string list \<Rightarrow> world" where
  "start input = \<lparr>stdin = input, console = [], keysDrawn = 0, randomsDrawn = 0\<rparr>"

definition consoleLog :: "line \<Rightarrow> world \<Rightarrow> world" where
  "consoleLog l w = w\<lparr>console := console w @ [l]\<rparr>"

section \<open>HMACGenerator and RPSGame\<close>

text \<open>
  \<^verbatim>\<open>HMACGenerator.generateHMAC(move, hmacKey)\<close>: the algorithm is the constant
  \<^verbatim>\<open>'sha3-256'\<close>; \<^verbatim>\<open>update\<close> throws on a move that is not a string.
\<close>

definition generateHMAC :: "env \<Rightarrow> jsval \<Rightarrow> string \<Rightarrow> error + string" where
  "generateHMAC e move key =
     (case move of
        Undefined \<Rightarrow> Inl TypeError
      | Str m \<Rightarrow> Inr (createHmac e ''sha3-256'' key m))"

definition generateKey :: "env \<Rightarrow> world \<Rightarrow> string \<times> world" where
  "generateKey e w = (randomBytes e (keysDrawn w) 32, w\<lparr>keysDrawn := Suc (keysDrawn w)\<rparr>)"

text \<open>
  An \<^verbatim>\<open>RPSGame\<close> holds the moves and the key; its constructor draws the key. Its
  \<^verbatim>\<open>generateHMAC(move)\<close> is \<open>generateHMAC e move (hmacKey game)\<close> and its
  \<^verbatim>\<open>determineWinner\<close> is that of \<^verbatim>\<open>GameLogic\<close> on the same moves.
\<close>

record RPSGame =
  gameMoves :: "string list"
  hmacKey :: string

definition newRPSGame :: "env \<Rightarrow> string list \<Rightarrow> world \<Rightarrow> RPSGame \<times> world" where
  "newRPSGame e moves w =
     (case generateKey e w of (key, w') \<Rightarrow> (\<lparr>gameMoves = moves, hmacKey = key\<rparr>, w'))"

section \<open>GameController\<close>

definition printGameIntro :: "string \<Rightarrow> world \<Rightarrow> world" where
  "printGameIntro hmac w = consoleLog (HmacLine hmac) (consoleLog GameIntro w)"

definition printAvailableMoves :: "string list \<Rightarrow> world \<Rightarrow> world" where
  "printAvailableMoves moves w =
     consoleLog HelpOption (consoleLog ExitOption
       (w\<lparr>console := console w @ AvailableMoves
            # map (\<lambda>(index, move). MoveOption (index + 1) move) (enumerate 0 moves)\<rparr>))"

text \<open>
  \<^verbatim>\<open>String.prototype.trim\<close>. Lines of input are taken as ASCII text, so the white
  space is that of ASCII (tab, line feed, vertical tab, form feed, carriage return,
  space); the white space of Unicode beyond it is not modelled.
\<close>

definition isSpace :: "char \<Rightarrow> bool" where
  "isSpace c = (of_char c \<in> {9, 10, 11, 12, 13, 32 :: nat})"

definition trim :: "string \<Rightarrow> string" where
  "trim s = rev (dropWhile isSpace (rev (dropWhile isSpace s)))"

text \<open>
  \<^verbatim>\<open>promptUser(question)\<close> writes the question and resolves to the next line of standard
  input, trimmed. With standard input at its end the promise never resolves and nothing
  more of the session runs.
\<close>

definition promptUser :: "string \<Rightarrow> world \<Rightarrow> string option \<times> world" where
  "promptUser question w =
     (case stdin w of
        [] \<Rightarrow> (None, consoleLog (Prompt question) w)
      | answer # rest \<Rightarrow> (Some (trim answer), consoleLog (Prompt question) (w\<lparr>stdin := rest\<rparr>)))"

definition displayHelpTable :: "string list \<Rightarrow> world \<Rightarrow> world" where
  "displayHelpTable moves w =
     (let table = generateTable moves;
          totalLength = 15 + length moves * 12
      in w\<lparr>console := console w
            @ [TableCaption, TableLine totalLength, TableHeader moves, TableLine totalLength]
            @ concat (map (\<lambda>row. [TableRow row, TableLine totalLength]) table)\<rparr>)"

definition displayHelp :: "string list \<Rightarrow> world \<Rightarrow> world" where
  "displayHelp moves w = displayHelpTable moves (consoleLog HelpMenu w)"

text \<open>
  \<^verbatim>\<open>validateUserInput(userMoveIndex)\<close>: the gate on the number read from the user.
\<close>

definition validateUserInput :: "string list \<Rightarrow> jsnum \<Rightarrow> error + unit" where
  "validateUserInput moves userMoveIndex =
     (if isNaN userMoveIndex \<or> jsLess userMoveIndex (Num 0)
          \<or> jsLess (Num (of_nat (length moves))) userMoveIndex
      then Inl (InvalidInputError ChooseValidMoveText)
      else Inr ())"

definition handleError :: "error \<Rightarrow> world \<Rightarrow> world" where
  "handleError err w = consoleLog (ErrorLine err) w"

text \<open>
  \<^verbatim>\<open>GameController.playGame()\<close>. Every \<^verbatim>\<open>throw\<close> inside it is caught by its own
  \<^verbatim>\<open>catch\<close>, which hands the error to \<^verbatim>\<open>handleError\<close>. The user's move is read from
  the array before the gate runs, and the winner is determined before its line is
  written.
\<close>

definition playGame :: "env \<Rightarrow> RPSGame \<Rightarrow> string list \<Rightarrow> world \<Rightarrow> world" where
  "playGame e game moves w =
     (let computerMove =
            arrayGet moves (Num (of_int (randomIndex e (randomsDrawn w) (length moves))));
          w1 = w\<lparr>randomsDrawn := Suc (randomsDrawn w)\<rparr>
      in case generateHMAC e computerMove (hmacKey game) of
           Inl err \<Rightarrow> handleError err w1
         | Inr hmac \<Rightarrow>
             (case promptUser ''Enter your move: ''
                     (printAvailableMoves moves (printGameIntro hmac w1)) of
                (None, w2) \<Rightarrow> w2
              | (Some userInput, w2) \<Rightarrow>
                  if userInput = ''?'' then displayHelp moves w2
                  else if userInput = ''0'' then consoleLog Exiting w2
                  else
                    let userMoveIndex = toNumber e userInput;
                        userMove = arrayGet moves (jsMinus userMoveIndex 1)
                    in case validateUserInput moves userMoveIndex of
                         Inl err \<Rightarrow> handleError err w2
                       | Inr ok \<Rightarrow>
                           let w3 = consoleLog (ComputerMoveLine computerMove)
                                      (consoleLog (YourMoveLine userMove) w2)
                           in case determineWinner (gameMoves game) userMove computerMove of
                                Inl err \<Rightarrow> handleError err w3
                              | Inr result \<Rightarrow>
                                  consoleLog (HmacKeyLine (hmacKey game))
                                    (consoleLog (ResultLine result) w3)))"

section \<open>main\<close>

text \<open>
  \<^verbatim>\<open>main()\<close>, on the arguments of the command line. \<^verbatim>\<open>new Set(moves).size\<close> is the
  number of distinct labels.
\<close>

definition main :: "env \<Rightarrow> string list \<Rightarrow> world \<Rightarrow> world" where
  "main e argv w =
     (let moves = argv
      in if length moves < 3 \<or> length moves mod 2 \<noteq> 1
            \<or> length (remdups moves) \<noteq> length moves
         then consoleLog (ErrorLine (InvalidInputError UsageText)) w
         else case newRPSGame e moves w of
                (game, w') \<Rightarrow> playGame e game moves w')"

section \<open>The conversion Number\<close>

text \<open>
  \<^verbatim>\<open>Number(s)\<close> on a string, after the grammar of numeric string literals of the language:
  white space around the literal is dropped and the empty literal is zero; a literal is
  \<^verbatim>\<open>0x\<close>, \<^verbatim>\<open>0o\<close> or \<^verbatim>\<open>0b\<close> followed by digits of that radix, or a decimal literal with
  an optional sign, an optional fraction and an optional exponent, or a signed
  \<^verbatim>\<open>Infinity\<close>; every other string is \<^verbatim>\<open>NaN\<close>. The value is the exact value of the
  literal: it is the value of \<^verbatim>\<open>Number(s)\<close> whenever that exact value is a double, as it
  is for every literal evaluated below. The statements about all inputs do not rest on
  this definition: they take the conversion from the environment.
\<close>

definition digitOf :: "nat \<Rightarrow> char \<Rightarrow> nat option" where
  "digitOf radix c =
     (let k = (of_char c :: nat);
          d = (if 48 \<le> k \<and> k \<le> 57 then k - 48
               else if 97 \<le> k \<and> k \<le> 122 then k - 87
               else if 65 \<le> k \<and> k \<le> 90 then k - 55
               else radix)
      in if d < radix then Some d else None)"

fun digitsValue :: "nat \<Rightarrow> string \<Rightarrow> nat \<Rightarrow> nat option" where
  "digitsValue radix [] acc = Some acc"
| "digitsValue radix (c # cs) acc =
     (case digitOf radix c of
        None \<Rightarrow> None
      | Some d \<Rightarrow> digitsValue radix cs (acc * radix + d))"

definition digits :: "nat \<Rightarrow> string \<Rightarrow> nat option" where
  "digits radix cs = (if cs = [] then None else digitsValue radix cs 0)"

text \<open>The exponent part: nothing, or the indicator followed by signed digits.\<close>

definition exponentPart :: "string \<Rightarrow> int option" where
  "exponentPart s =
     (if s = [] then Some 0
      else let r = tl s
           in if r \<noteq> [] \<and> hd r = CHR ''-'' then map_option (\<lambda>n. - int n) (digits 10 (tl r))
              else if r \<noteq> [] \<and> hd r = CHR ''+'' then map_option int (digits 10 (tl r))
              else map_option int (digits 10 r))"

definition pow10 :: "int \<Rightarrow> rat" where
  "pow10 k = (if 0 \<le> k then 10 ^ nat k else 1 / 10 ^ nat (- k))"

definition isExponentIndicator :: "char \<Rightarrow> bool" where
  "isExponentIndicator c = (c = CHR ''e'' \<or> c = CHR ''E'')"

definition unsignedDecimal :: "string \<Rightarrow> jsnum" where
  "unsignedDecimal s =
     (if s = ''Infinity'' then PosInf
      else
        let mantissa = takeWhile (\<lambda>c. \<not> isExponentIndicator c) s;
            expo = dropWhile (\<lambda>c. \<not> isExponentIndicator c) s;
            whole = takeWhile (\<lambda>c. c \<noteq> CHR ''.'') mantissa;
            frac = tl (dropWhile (\<lambda>c. c \<noteq> CHR ''.'') mantissa)
        in if whole = [] \<and> frac = [] then NaN
           else case (digitsValue 10 whole 0, digitsValue 10 frac 0, exponentPart expo) of
                  (Some a, Some b, Some x) \<Rightarrow>
                    Num ((of_nat a + of_nat b / 10 ^ length frac) * pow10 x)
                | _ \<Rightarrow> NaN)"

fun jsNegate :: "jsnum \<Rightarrow> jsnum" where
  "jsNegate NaN = NaN"
| "jsNegate NegInf = PosInf"
| "jsNegate PosInf = NegInf"
| "jsNegate (Num q) = Num (- q)"

definition strDecimalLiteral :: "string \<Rightarrow> jsnum" where
  "strDecimalLiteral s =
     (if s \<noteq> [] \<and> hd s = CHR ''+'' then unsignedDecimal (tl s)
      else if s \<noteq> [] \<and> hd s = CHR ''-'' then jsNegate (unsignedDecimal (tl s))
      else unsignedDecimal s)"

definition radixOf :: "string \<Rightarrow> nat option" where
  "radixOf s =
     (if length s < 2 \<or> hd s \<noteq> CHR ''0'' then None
      else let x = hd (tl s)
           in if x = CHR ''x'' \<or> x = CHR ''X'' then Some 16
              else if x = CHR ''o'' \<or> x = CHR ''O'' then Some 8
              else if x = CHR ''b'' \<or> x = CHR ''B'' then Some 2
              else None)"

definition Number :: "string \<Rightarrow> jsnum" where
  "Number s =
     (let t = trim s
      in if t = [] then Num 0
         else case radixOf t of
                Some radix \<Rightarrow>
                  (case digits radix (drop 2 t) of
                     None \<Rightarrow> NaN
                   | Some n \<Rightarrow> Num (of_nat n))
              | None \<Rightarrow> strDecimalLiteral t)"

section \<open>Notions for the statements\<close>

text \<open>
  The move sets \<^verbatim>\<open>main\<close> accepts: at least three labels, an odd number of them, no
  label twice.
\<close>

definition validMoveSet :: "string list \<Rightarrow> bool" where
  "validMoveSet moves = (3 \<le> length moves \<and> odd (length moves) \<and> distinct moves)"

text \<open>
  The rule of the specification, in its words: with \<open>N\<close> the number of moves and
  \<open>iHuman\<close>, \<open>iComputer\<close> the 0-based positions of the two moves, the result is a draw
  when the positions are equal, and otherwise the human wins iff
  \<open>(iHuman - iComputer + N) mod N\<close> lies in \<open>[1, floor(N/2)]\<close>, and loses in all
  remaining cases.
\<close>

definition specResolve :: "string list \<Rightarrow> string \<Rightarrow> string \<Rightarrow> outcome" where
  "specResolve moves humanMove computerMove =
     (let N = int (length moves);
          iHuman = indexOf moves (Str humanMove);
          iComputer = indexOf moves (Str computerMove);
          d = (iHuman - iComputer + N) mod N
      in if iHuman = iComputer then Draw
         else if 1 \<le> d \<and> d \<le> N div 2 then Win
         else Lose)"

text \<open>The two move sets the specification names.\<close>

definition rps :: "string list" where
  "rps = [''Rock'', ''Paper'', ''Scissors'']"

definition rpsls :: "string list" where
  "rpsls = [''Rock'', ''Paper'', ''Scissors'', ''Lizard'', ''Spock'']"

text \<open>
  What a session has written once it has asked for the user's move: the intro with the
  HMAC, the available moves, and the question.
\<close>

definition introLines :: "string \<Rightarrow> string list \<Rightarrow> line list" where
  "introLines hmac moves =
     [GameIntro, HmacLine hmac, AvailableMoves]
     @ map (\<lambda>(index, move). MoveOption (index + 1) move) (enumerate 0 moves)
     @ [ExitOption, HelpOption, Prompt ''Enter your move: '']"

text \<open>The numbers that pick a move of a set of \<open>n\<close> moves: the integers from 1 to \<open>n\<close>.\<close>

fun picksMove :: "nat \<Rightarrow> jsnum \<Rightarrow> bool" where
  "picksMove n (Num q) = (q = of_int \<lfloor>q\<rfloor> \<and> 1 \<le> q \<and> q \<le> of_nat n)"
| "picksMove n v = False"

text \<open>The position in the array of the move a number picks: the number less one.\<close>

fun pickedPosition :: "jsnum \<Rightarrow> nat" where
  "pickedPosition (Num q) = nat (\<lfloor>q\<rfloor> - 1)"
| "pickedPosition v = 0"

text \<open>
  An environment for evaluating sessions: a key and a hash that stand in for the random
  bytes and the HMAC (the hash only joins its arguments), a fixed random index \<open>r\<close>, and
  the conversion \<open>Number\<close>.
\<close>

definition testKey :: string where
  "testKey = ''000102030405060708090a0b0c0d0e0f101112131415161718191a1b1c1d1e1f''"

definition testHmac :: "string \<Rightarrow> string \<Rightarrow> string \<Rightarrow> string" where
  "testHmac algorithm key message = algorithm @ '':'' @ key @ '':'' @ message"

definition testEnv :: "int \<Rightarrow> env" where
  "testEnv r =
     \<lparr>createHmac = testHmac, randomBytes = (\<lambda>k size. testKey),
      randomIndex = (\<lambda>k n. r), toNumber = Number\<rparr>"

section \<open>The resolver\<close>

lemmas resolver_defs =
  determineWinner_def indexOf_def slice_def arrayIncludes_def

lemma indexOfFrom_member: "h \<in> set xs \<Longrightarrow> k \<le> indexOfFrom xs (Str h) k"
proof (induction xs arbitrary: k)
  case Nil
  then show ?case by simp
next
  case (Cons x xs)
  show ?case
  proof (cases "x = h")
    case True
    then show ?thesis by simp
  next
    case False
    with Cons.prems have "h \<in> set xs" by simp
    from Cons.IH [OF this, of "k + 1"] False show ?thesis by simp
  qed
qed

lemma indexOf_member: "h \<in> set xs \<Longrightarrow> indexOf xs (Str h) \<noteq> - 1"
  using indexOfFrom_member [of h xs 0] by (simp add: indexOf_def)

lemma indexOfFrom_Undefined: "indexOfFrom xs Undefined k = - 1"
  by (induction xs arbitrary: k) simp_all

lemma determineWinner_Undefined:
  "determineWinner moves Undefined c = Inl (InvalidInputError ChooseValidMoveText)"
  by (simp add: determineWinner_def indexOf_def indexOfFrom_Undefined)

text \<open>
  The help table follows the rule of the specification: on a list of distinct moves, the
  cell of row \<open>i\<close> and column \<open>j + 1\<close> is what the rule gives for the move of the column
  as the human's against the move of the row as the computer's.
\<close>

lemma indexOfFrom_nth:
  "distinct xs \<Longrightarrow> j < length xs \<Longrightarrow> indexOfFrom xs (Str (xs ! j)) k = k + int j"
proof (induction xs arbitrary: j k)
  case Nil
  then show ?case by simp
next
  case (Cons x xs)
  show ?case
  proof (cases j)
    case 0
    then show ?thesis by simp
  next
    case (Suc j')
    with Cons.prems have j': "j' < length xs" and d: "distinct xs" and "x \<notin> set xs"
      by simp_all
    then have "xs ! j' \<noteq> x"
      by (metis nth_mem)
    with Cons.IH [OF d j', of "k + 1"] Suc show ?thesis
      by simp
  qed
qed

lemma indexOf_nth: "distinct xs \<Longrightarrow> j < length xs \<Longrightarrow> indexOf xs (Str (xs ! j)) = int j"
  by (simp add: indexOf_def indexOfFrom_nth)

lemma generateTable_cell:
  "i < length moves \<Longrightarrow> j < length moves \<Longrightarrow>
   generateTable moves ! i ! Suc j = Cell (determineOutcome (int i) (int j) (int (length moves)))"
  by (simp add: generateTable_def)

lemma cyclic_distance:
  fixes a b n :: int
  assumes "0 \<le> a" and "a < n" and "0 \<le> b" and "b < n"
  shows "(b - a + n) mod n = (if a \<le> b then b - a else b - a + n)"
proof (cases "a \<le> b")
  case True
  have "(b - a + n) mod n = (b - a) mod n"
    by simp
  also from True assms have "\<dots> = b - a"
    by (simp add: mod_pos_pos_trivial)
  finally show ?thesis
    using True by (simp only: if_True)
next
  case False
  with assms have "0 \<le> b - a + n" and "b - a + n < n"
    by simp_all
  then have "(b - a + n) mod n = b - a + n"
    by (rule mod_pos_pos_trivial)
  then show ?thesis
    using False by (simp only: if_False)
qed

lemma determineOutcome_rule:
  assumes "0 \<le> a" and "a < n" and "0 \<le> b" and "b < n"
  shows "determineOutcome a b n =
           (if b = a then Draw
            else if 1 \<le> (b - a + n) mod n \<and> (b - a + n) mod n \<le> n div 2 then Win
            else Lose)"
proof -
  define d where "d = (b - a + n) mod n"
  from assms have pos: "0 < b - a + n" and n: "0 < n"
    by simp_all
  then have rem: "jsRem (b - a + n) n = d"
    by (simp add: jsRem_def d_def)
  have d: "d = (if a \<le> b then b - a else b - a + n)"
    unfolding d_def using assms by (rule cyclic_distance)
  have zero: "(d = 0) = (b = a)"
    using d assms by (simp split: if_splits)
  have one: "(1 \<le> d) = (b \<noteq> a)"
    using d assms by (auto split: if_splits)
  have half: "(2 * d \<le> n) = (d \<le> n div 2)"
    by presburger
  have "determineOutcome a b n =
          (if d = 0 then Draw else if 2 * d \<le> n then Win else Lose)"
    using n by (simp add: determineOutcome_def rem Let_def)
  also have "\<dots> = (if b = a then Draw else if 1 \<le> d \<and> d \<le> n div 2 then Win else Lose)"
    by (simp only: zero one half) simp
  finally show ?thesis
    by (simp only: d_def)
qed

lemma table_follows_rule:
  assumes "distinct moves" and "i < length moves" and "j < length moves"
  shows "generateTable moves ! i ! (j + 1) = Cell (specResolve moves (moves ! j) (moves ! i))"
proof -
  have "determineOutcome (int i) (int j) (int (length moves))
          = specResolve moves (moves ! j) (moves ! i)"
    using assms
    by (simp add: determineOutcome_rule specResolve_def indexOf_nth Let_def)
  with assms show ?thesis
    by (simp add: generateTable_cell)
qed

text \<open>
  Where the resolver follows the rule and where it does not. On a valid move set, with the
  human's move at position \<open>h\<close> and the computer's at position \<open>c\<close>, the resolver gives
  what the rule gives, unless \<open>c\<close> is below half the number of moves and \<open>h\<close> is below
  \<open>c\<close>: there the second slice has a negative end, the resolver gives a win, and the
  rule gives a loss.
\<close>

lemma nth_in_take_drop:
  assumes "distinct xs" and "u < length xs"
  shows "(xs ! u \<in> set (take a (drop b xs))) = (b \<le> u \<and> u < b + a)"
proof
  assume "xs ! u \<in> set (take a (drop b xs))"
  then obtain i where i: "i < length (take a (drop b xs))"
    and eq: "take a (drop b xs) ! i = xs ! u"
    by (auto simp add: in_set_conv_nth)
  from i have ia: "i < a" and "i < length xs - b"
    by simp_all
  then have ib: "b + i < length xs"
    by linarith
  from ia ib have "take a (drop b xs) ! i = xs ! (b + i)"
    by simp
  with eq have "xs ! (b + i) = xs ! u"
    by simp
  with assms ib have "b + i = u"
    by (simp add: nth_eq_iff_index_eq)
  with ia show "b \<le> u \<and> u < b + a"
    by linarith
next
  assume r: "b \<le> u \<and> u < b + a"
  with assms(2) have "u - b < length xs - b" and ua: "u - b < a"
    by linarith+
  then have i: "u - b < length (take a (drop b xs))"
    by simp
  from r assms(2) ua have "take a (drop b xs) ! (u - b) = xs ! u"
    by simp
  with i show "xs ! u \<in> set (take a (drop b xs))"
    by (metis nth_mem)
qed

lemma nth_in_slice:
  assumes "distinct xs" and "u < length xs" and "0 \<le> s"
  shows "arrayIncludes (slice xs s f) (Str (xs ! u)) =
           (s \<le> int u
            \<and> int u < (if f < 0 then max (int (length xs) + f) 0 else min f (int (length xs))))"
proof -
  define final where
    "final = (if f < 0 then max (int (length xs) + f) 0 else min f (int (length xs)))"
  define k where "k = min s (int (length xs))"
  have sl: "slice xs s f = take (nat (final - k)) (drop (nat k) xs)"
    using assms(3) by (simp add: slice_def final_def k_def Let_def)
  have "arrayIncludes (slice xs s f) (Str (xs ! u)) = (xs ! u \<in> set (slice xs s f))"
    by (auto simp add: arrayIncludes_def)
  also have "\<dots> = (nat k \<le> u \<and> u < nat k + nat (final - k))"
    unfolding sl using assms(1,2) by (rule nth_in_take_drop)
  also have "\<dots> = (s \<le> int u \<and> int u < final)"
    using assms(2,3) by (auto simp add: k_def)
  finally show ?thesis
    by (simp only: final_def)
qed

lemma determineWinner_positions:
  assumes "distinct moves" and "h < length moves" and "c < length moves"
  shows "determineWinner moves (Str (moves ! h)) (Str (moves ! c)) =
     (if h = c then Inr Draw
      else if (int c + 1 \<le> int h \<and> int h < int c + 1 + int (length moves) div 2)
            \<or> int h < (if int c < int (length moves) div 2
                        then int (length moves) + (int c - int (length moves) div 2)
                        else int c - int (length moves) div 2)
      then Inr Win else Inr Lose)"
proof -
  have same: "(moves ! h = moves ! c) = (h = c)"
    using assms by (simp add: nth_eq_iff_index_eq)
  have half: "0 \<le> int (length moves) div 2"
    by simp
  have first: "arrayIncludes
                 (slice moves (int c + 1) (int c + 1 + int (length moves) div 2))
                 (Str (moves ! h))
               = (int c + 1 \<le> int h \<and> int h < int c + 1 + int (length moves) div 2)"
    using assms(2) half by (auto simp add: nth_in_slice [OF assms(1,2)])
  have second: "arrayIncludes (slice moves 0 (int c - int (length moves) div 2))
                  (Str (moves ! h))
               = (int h < (if int c < int (length moves) div 2
                           then int (length moves) + (int c - int (length moves) div 2)
                           else int c - int (length moves) div 2))"
    using assms(2,3) half by (auto simp add: nth_in_slice [OF assms(1,2)])
  have app: "arrayIncludes (xs @ ys) v = (arrayIncludes xs v \<or> arrayIncludes ys v)"
    for xs ys v
    by (auto simp add: arrayIncludes_def)
  show ?thesis
    using assms
    by (simp add: determineWinner_def indexOf_nth Let_def same app first second)
qed

lemma resolver_follows_rule_outside_defect:
  assumes "validMoveSet moves" and "h < length moves" and "c < length moves"
    and "\<not> (int c < int (length moves) div 2 \<and> h < c)"
  shows "determineWinner moves (Str (moves ! h)) (Str (moves ! c))
           = Inr (specResolve moves (moves ! h) (moves ! c))"
proof -
  from assms(1) have d: "distinct moves" and o: "odd (length moves)"
    by (simp_all add: validMoveSet_def)
  from o have n: "int (length moves) = 2 * (int (length moves) div 2) + 1"
    by presburger
  have "(int h - int c + int (length moves)) mod int (length moves)
          = (if int c \<le> int h then int h - int c
             else int h - int c + int (length moves))"
    using assms(2,3) by (intro cyclic_distance) simp_all
  then have dist: "(int h - int c) mod int (length moves)
                     = (if int c \<le> int h then int h - int c
                        else int h - int c + int (length moves))"
    by simp
  have spec: "specResolve moves (moves ! h) (moves ! c) =
     (if h = c then Draw
      else if 1 \<le> (if int c \<le> int h then int h - int c
                     else int h - int c + int (length moves))
            \<and> (if int c \<le> int h then int h - int c
                else int h - int c + int (length moves)) \<le> int (length moves) div 2
      then Win else Lose)"
    using assms(2,3) by (simp add: specResolve_def indexOf_nth d Let_def dist)
  show ?thesis
    unfolding determineWinner_positions [OF d assms(2,3)] spec
    using assms(2-4) n by (auto split: if_splits)
qed

lemma resolver_defect:
  assumes "validMoveSet moves" and "c < length moves"
    and "int c < int (length moves) div 2" and "h < c"
  shows "determineWinner moves (Str (moves ! h)) (Str (moves ! c)) = Inr Win
         \<and> specResolve moves (moves ! h) (moves ! c) = Lose"
proof -
  from assms(1) have d: "distinct moves" and o: "odd (length moves)"
    by (simp_all add: validMoveSet_def)
  from assms(2,4) have h: "h < length moves"
    by simp
  from o have n: "int (length moves) = 2 * (int (length moves) div 2) + 1"
    by presburger
  have "(int h - int c + int (length moves)) mod int (length moves)
          = (if int c \<le> int h then int h - int c
             else int h - int c + int (length moves))"
    using h assms(2) by (intro cyclic_distance) simp_all
  then have dist: "(int h - int c) mod int (length moves)
                     = (if int c \<le> int h then int h - int c
                        else int h - int c + int (length moves))"
    by simp
  have win: "determineWinner moves (Str (moves ! h)) (Str (moves ! c)) = Inr Win"
    unfolding determineWinner_positions [OF d h assms(2)]
    using assms(3,4) by simp
  have lose: "specResolve moves (moves ! h) (moves ! c) = Lose"
    using h assms(2-4) n
    by (simp add: specResolve_def indexOf_nth d Let_def dist)
  from win lose show ?thesis
    by simp
qed

text \<open>
  Claim C1 says that on every valid move set the resolver gives a draw iff the two
  positions are equal, and otherwise a win to the human iff
  \<open>(iHuman - iComputer + N) mod N\<close> lies in \<open>[1, floor(N/2)]\<close>, and a loss in all
  remaining cases. The code does not: with the five moves Rock, Paper, Scissors, Lizard
  and Spock, the human's Rock against the computer's Paper is at distance
  \<open>(0 - 1 + 5) mod 5 = 4\<close>, a loss by the rule, and \<open>determineWinner\<close> returns a win. The
  second slice, \<^verbatim>\<open>slice(0, computerIndex - half)\<close>, has the negative end \<open>-1\<close> there, which
  counts from the end of the array and takes Rock, Paper, Scissors and Lizard. The
  lemmas \<open>resolver_defect\<close> and \<open>resolver_follows_rule_outside_defect\<close> above give
  the positions at which the resolver departs from the rule, and show that it follows the
  rule at all others.
\<close>

theorem resolver_wrong_at_rock_against_paper:
  "determineWinner rpsls (Str ''Rock'') (Str ''Paper'') = Inr Win
   \<and> specResolve rpsls ''Rock'' ''Paper'' = Lose"
  by (simp add: resolver_defs specResolve_def rpsls_def)

text \<open>
  Claim C2 says that the entry of the help table at row \<open>i\<close>, column \<open>j + 1\<close> is the
  outcome the resolver gives for the column move as the human's against the row move as
  the computer's. With the five moves, row 1 (Paper) and column 0 (Rock), the table
  holds a loss and the resolver returns a win. The table is the one that follows the
  rule of the specification (lemma \<open>table_follows_rule\<close>).
\<close>

theorem table_and_resolver_disagree:
  "generateTable rpsls ! 1 ! (0 + 1) = Cell Lose
   \<and> determineWinner rpsls (Str (rpsls ! 0)) (Str (rpsls ! 1)) = Inr Win"
  by (simp add: resolver_defs generateTable_def determineOutcome_def jsRem_def rpsls_def upt_rec)

text \<open>
  Claim C3 says that for two distinct moves the resolver gives a win for one order of
  the two iff it gives a loss for the other. With the five moves, Rock against Paper is a
  win for the human, and so is Paper against Rock.
\<close>

theorem rock_and_paper_both_win:
  "determineWinner rpsls (Str ''Rock'') (Str ''Paper'') = Inr Win
   \<and> determineWinner rpsls (Str ''Paper'') (Str ''Rock'') = Inr Win"
  by (simp add: resolver_defs rpsls_def)

text \<open>
  Claim C4, as stated, says that with the five moves Scissors beats Lizard and Paper and
  loses to Rock and Spock. The resolver goes by the positions of the moves: the human's
  Scissors loses against the computer's Lizard, and wins against the computer's Rock.
\<close>

theorem scissors_against_lizard_and_rock:
  "determineWinner rpsls (Str ''Scissors'') (Str ''Lizard'') = Inr Lose
   \<and> determineWinner rpsls (Str ''Scissors'') (Str ''Rock'') = Inr Win"
  by (simp add: resolver_defs rpsls_def)

text \<open>
  Claim C4, amended: with the three moves Rock, Paper and Scissors, Rock loses to Paper
  and beats Scissors; with the five moves Rock, Paper, Scissors, Lizard and Spock,
  Scissors beats Paper and Rock and loses to Lizard and Spock, and in particular the
  human's Scissors against the computer's Paper is a win for the human. The first six
  results have the named move as the human's, the last six have it as the computer's.
\<close>

theorem reference_tables_of_the_resolver:
  "determineWinner rps (Str ''Rock'') (Str ''Paper'') = Inr Lose
   \<and> determineWinner rps (Str ''Rock'') (Str ''Scissors'') = Inr Win
   \<and> determineWinner rpsls (Str ''Scissors'') (Str ''Paper'') = Inr Win
   \<and> determineWinner rpsls (Str ''Scissors'') (Str ''Rock'') = Inr Win
   \<and> determineWinner rpsls (Str ''Scissors'') (Str ''Lizard'') = Inr Lose
   \<and> determineWinner rpsls (Str ''Scissors'') (Str ''Spock'') = Inr Lose
   \<and> determineWinner rps (Str ''Paper'') (Str ''Rock'') = Inr Win
   \<and> determineWinner rps (Str ''Scissors'') (Str ''Rock'') = Inr Lose
   \<and> determineWinner rpsls (Str ''Paper'') (Str ''Scissors'') = Inr Lose
   \<and> determineWinner rpsls (Str ''Rock'') (Str ''Scissors'') = Inr Lose
   \<and> determineWinner rpsls (Str ''Lizard'') (Str ''Scissors'') = Inr Win
   \<and> determineWinner rpsls (Str ''Spock'') (Str ''Scissors'') = Inr Win"
  by (simp add: resolver_defs rps_def rpsls_def)

text \<open>
  Claim C6: for every pair of member moves the resolver returns one of the three
  outcomes (it does not throw), and a move against itself is a draw. This holds for
  every list of moves, so for every valid move set.
\<close>

theorem determineWinner_total_on_members:
  assumes "h \<in> set moves" and "c \<in> set moves"
  shows "determineWinner moves (Str h) (Str c) \<in> {Inr Draw, Inr Win, Inr Lose}
         \<and> determineWinner moves (Str h) (Str h) = Inr Draw"
  using indexOf_member [OF assms(1)] indexOf_member [OF assms(2)]
  by (simp add: determineWinner_def Let_def)

theorem determineWinner_total_on_members_witness:
  "''Paper'' \<in> set rps \<and> ''Rock'' \<in> set rps
   \<and> determineWinner rps (Str ''Paper'') (Str ''Rock'') \<in> {Inr Draw, Inr Win, Inr Lose}
   \<and> determineWinner rps (Str ''Paper'') (Str ''Paper'') = Inr Draw"
proof -
  have h: "''Paper'' \<in> set rps" and c: "''Rock'' \<in> set rps"
    by (simp_all add: rps_def)
  show ?thesis
    using h c determineWinner_total_on_members [OF h c] by simp
qed

section \<open>The session\<close>

lemma main_rejects:
  "\<not> validMoveSet argv \<Longrightarrow>
   main e argv w = consoleLog (ErrorLine (InvalidInputError UsageText)) w"
  by (auto simp add: main_def validMoveSet_def Let_def length_remdups_eq odd_iff_mod_2_eq_one)

lemma main_accepts:
  "validMoveSet argv \<Longrightarrow>
   main e argv w =
     playGame e \<lparr>gameMoves = argv, hmacKey = randomBytes e (keysDrawn w) 32\<rparr> argv
       (w\<lparr>keysDrawn := Suc (keysDrawn w)\<rparr>)"
  by (auto simp add: main_def validMoveSet_def Let_def length_remdups_eq odd_iff_mod_2_eq_one
      newRPSGame_def generateKey_def)

text \<open>
  The session from the moment the user has answered, for a random index within the
  moves: its three ways on, by the answer.
\<close>

lemma playGame_answered:
  assumes "0 \<le> randomIndex e (randomsDrawn w) (length moves)"
    and "randomIndex e (randomsDrawn w) (length moves) < int (length moves)"
    and "stdin w = answer # rest"
  shows "playGame e game moves w =
    (let c = moves ! nat (randomIndex e (randomsDrawn w) (length moves));
         w2 = w\<lparr>stdin := rest,
                 console := console w
                   @ introLines (createHmac e ''sha3-256'' (hmacKey game) c) moves,
                 randomsDrawn := Suc (randomsDrawn w)\<rparr>;
         userInput = trim answer
     in if userInput = ''?'' then displayHelp moves w2
        else if userInput = ''0'' then consoleLog Exiting w2
        else case validateUserInput moves (toNumber e userInput) of
               Inl err \<Rightarrow> handleError err w2
             | Inr ok \<Rightarrow>
                 (case determineWinner (gameMoves game)
                         (arrayGet moves (jsMinus (toNumber e userInput) 1)) (Str c) of
                    Inl err \<Rightarrow>
                      w2\<lparr>console := console w2
                            @ [YourMoveLine (arrayGet moves (jsMinus (toNumber e userInput) 1)),
                               ComputerMoveLine (Str c), ErrorLine err]\<rparr>
                  | Inr result \<Rightarrow>
                      w2\<lparr>console := console w2
                            @ [YourMoveLine (arrayGet moves (jsMinus (toNumber e userInput) 1)),
                               ComputerMoveLine (Str c), ResultLine result,
                               HmacKeyLine (hmacKey game)]\<rparr>))"
  using assms
  by (cases w) (simp add: playGame_def generateHMAC_def promptUser_def printAvailableMoves_def
      printGameIntro_def consoleLog_def handleError_def introLines_def Let_def
      split: sum.splits)

lemma key_notin_introLines: "HmacKeyLine k \<notin> set (introLines h moves)"
  by (auto simp add: introLines_def)

lemma key_in_displayHelp:
  "HmacKeyLine k \<in> set (console (displayHelp moves w)) \<longleftrightarrow> HmacKeyLine k \<in> set (console w)"
  by (auto simp add: displayHelp_def displayHelpTable_def consoleLog_def Let_def)

text \<open>
  Claim C8: for every argument list that has even size, or size less than 3, or a label
  twice, the program raises its configuration error (an \<^verbatim>\<open>InvalidInputError\<close> with the
  usage text, which \<^verbatim>\<open>main\<close> catches and writes) and no randomness is drawn: at the end
  of the run no key has been generated and no move selected, nothing else has been
  written and no input has been read.
\<close>

theorem invalid_arguments_rejected_before_randomness:
  assumes "length argv < 3 \<or> even (length argv) \<or> \<not> distinct argv"
  shows "main e argv (start input) =
           \<lparr>stdin = input, console = [ErrorLine (InvalidInputError UsageText)],
            keysDrawn = 0, randomsDrawn = 0\<rparr>"
proof -
  from assms have "\<not> validMoveSet argv"
    by (auto simp add: validMoveSet_def)
  then show ?thesis
    by (simp add: main_rejects consoleLog_def start_def)
qed

theorem invalid_arguments_rejected_before_randomness_witness:
  "(length [''Rock'', ''Paper'', ''Scissors'', ''Lizard''] < 3
      \<or> even (length [''Rock'', ''Paper'', ''Scissors'', ''Lizard''])
      \<or> \<not> distinct [''Rock'', ''Paper'', ''Scissors'', ''Lizard''])
   \<and> main (testEnv 0) [''Rock'', ''Paper'', ''Scissors'', ''Lizard''] (start [''1'']) =
       \<lparr>stdin = [''1''], console = [ErrorLine (InvalidInputError UsageText)],
        keysDrawn = 0, randomsDrawn = 0\<rparr>
   \<and> main (testEnv 0) [''Rock'', ''Paper''] (start [''1'']) =
       \<lparr>stdin = [''1''], console = [ErrorLine (InvalidInputError UsageText)],
        keysDrawn = 0, randomsDrawn = 0\<rparr>
   \<and> main (testEnv 0) [''Rock'', ''Paper'', ''Rock''] (start [''1'']) =
       \<lparr>stdin = [''1''], console = [ErrorLine (InvalidInputError UsageText)],
        keysDrawn = 0, randomsDrawn = 0\<rparr>"
proof -
  have a: "length [''Rock'', ''Paper'', ''Scissors'', ''Lizard''] < 3
      \<or> even (length [''Rock'', ''Paper'', ''Scissors'', ''Lizard''])
      \<or> \<not> distinct [''Rock'', ''Paper'', ''Scissors'', ''Lizard'']"
    by simp
  have b: "length [''Rock'', ''Paper''] < 3 \<or> even (length [''Rock'', ''Paper''])
      \<or> \<not> distinct [''Rock'', ''Paper'']"
    by simp
  have c: "length [''Rock'', ''Paper'', ''Rock''] < 3
      \<or> even (length [''Rock'', ''Paper'', ''Rock''])
      \<or> \<not> distinct [''Rock'', ''Paper'', ''Rock'']"
    by simp
  show ?thesis
    using a invalid_arguments_rejected_before_randomness [OF a, of "testEnv 0" "[''1'']"]
      invalid_arguments_rejected_before_randomness [OF b, of "testEnv 0" "[''1'']"]
      invalid_arguments_rejected_before_randomness [OF c, of "testEnv 0" "[''1'']"]
    by simp
qed

text \<open>The definitions that evaluate a session in the test environment.\<close>

lemmas eval_defs =
  main_def newRPSGame_def generateKey_def playGame_def generateHMAC_def promptUser_def
  printAvailableMoves_def printGameIntro_def consoleLog_def handleError_def start_def
  introLines_def displayHelp_def displayHelpTable_def generateTable_def determineOutcome_def
  jsRem_def validateUserInput_def resolver_defs testEnv_def rps_def rpsls_def
  Number_def trim_def isSpace_def radixOf_def strDecimalLiteral_def unsignedDecimal_def
  isExponentIndicator_def digitOf_def digits_def exponentPart_def pow10_def
  enumerate_eq_zip upt_rec

text \<open>
  Claim C7, as stated, says that after the input \<^verbatim>\<open>?\<close> the session shows the help table
  and is back at awaiting the human's input. The code returns from \<^verbatim>\<open>playGame\<close> after
  the table: with the inputs \<^verbatim>\<open>?\<close> and \<^verbatim>\<open>1\<close> waiting, the run ends with the table as
  its last output, one question asked, and the input \<^verbatim>\<open>1\<close> unread.
\<close>

theorem help_request_is_not_followed_by_a_prompt:
  "main (testEnv 1) rps (start [''?'', ''1'']) =
     \<lparr>stdin = [''1''],
      console =
        [GameIntro, HmacLine (testHmac ''sha3-256'' testKey ''Paper''), AvailableMoves,
         MoveOption 1 ''Rock'', MoveOption 2 ''Paper'', MoveOption 3 ''Scissors'',
         ExitOption, HelpOption, Prompt ''Enter your move: '',
         HelpMenu, TableCaption, TableLine 51, TableHeader [''Rock'', ''Paper'', ''Scissors''],
         TableLine 51,
         TableRow [Label ''Rock'', Cell Draw, Cell Win, Cell Lose], TableLine 51,
         TableRow [Label ''Paper'', Cell Lose, Cell Draw, Cell Win], TableLine 51,
         TableRow [Label ''Scissors'', Cell Win, Cell Lose, Cell Draw], TableLine 51],
      keysDrawn = 1, randomsDrawn = 1\<rparr>"
  by (simp add: eval_defs)

text \<open>
  Claim C7, amended: when the human enters \<^verbatim>\<open>?\<close>, the session shows the help table and
  then ends, without asking for input again: what follows on the input stays unread, and
  neither a move nor the key is shown. The commitment is not regenerated: in the whole
  session one key and one move are drawn, and the one digest shown is that of this key
  and this move.
\<close>

theorem help_request_ends_session:
  assumes "validMoveSet argv"
    and "0 \<le> randomIndex e 0 (length argv)"
    and "randomIndex e 0 (length argv) < int (length argv)"
    and "trim answer = ''?''"
  shows "main e argv (start (answer # rest)) =
     \<lparr>stdin = rest,
      console =
        introLines (createHmac e ''sha3-256'' (randomBytes e 0 32)
                      (argv ! nat (randomIndex e 0 (length argv)))) argv
        @ [HelpMenu, TableCaption, TableLine (15 + length argv * 12), TableHeader argv,
           TableLine (15 + length argv * 12)]
        @ concat (map (\<lambda>row. [TableRow row, TableLine (15 + length argv * 12)])
                    (generateTable argv)),
      keysDrawn = 1, randomsDrawn = 1\<rparr>"
  using assms
  by (simp add: main_accepts start_def playGame_answered displayHelp_def displayHelpTable_def
      consoleLog_def Let_def)

theorem help_request_ends_session_witness:
  "validMoveSet rps \<and> 0 \<le> randomIndex (testEnv 1) 0 (length rps)
   \<and> randomIndex (testEnv 1) 0 (length rps) < int (length rps)
   \<and> trim '' ? '' = ''?''
   \<and> main (testEnv 1) rps (start ['' ? '', ''2'']) =
     \<lparr>stdin = [''2''],
      console =
        introLines (testHmac ''sha3-256'' testKey ''Paper'') rps
        @ [HelpMenu, TableCaption, TableLine 51, TableHeader rps, TableLine 51]
        @ concat (map (\<lambda>row. [TableRow row, TableLine 51]) (generateTable rps)),
      keysDrawn = 1, randomsDrawn = 1\<rparr>"
proof -
  have v: "validMoveSet rps"
    by (simp add: validMoveSet_def rps_def)
  have lo: "0 \<le> randomIndex (testEnv 1) 0 (length rps)"
    and hi: "randomIndex (testEnv 1) 0 (length rps) < int (length rps)"
    by (simp_all add: testEnv_def rps_def)
  have t: "trim '' ? '' = ''?''"
    by (simp add: trim_def isSpace_def)
  show ?thesis
    using v lo hi t help_request_ends_session [OF v lo hi t, of "[''2'']"]
    by (simp add: testEnv_def rps_def)
qed

text \<open>The gate and the array read that follows it.\<close>

lemma gate_passes_iff:
  "(validateUserInput moves v = Inr ()) =
     (case v of Num q \<Rightarrow> 0 \<le> q \<and> q \<le> of_nat (length moves) | _ \<Rightarrow> False)"
  by (cases v) (simp_all add: validateUserInput_def not_less)

lemma gate_rejects:
  "validateUserInput moves v \<noteq> Inr () \<Longrightarrow>
   validateUserInput moves v = Inl (InvalidInputError ChooseValidMoveText)"
  by (simp add: validateUserInput_def split: if_splits)

lemma integer_minus_one:
  fixes q :: rat
  assumes "q - 1 = of_int \<lfloor>q - 1\<rfloor>"
  shows "q = of_int \<lfloor>q\<rfloor>"
proof -
  have "\<lfloor>q - 1\<rfloor> = \<lfloor>q\<rfloor> - 1"
    by (rule floor_diff_one)
  with assms have "q - 1 = of_int \<lfloor>q\<rfloor> - 1"
    by simp
  then show ?thesis
    by simp
qed

lemma no_move_read:
  assumes "validateUserInput moves v = Inr ()" and "\<not> picksMove (length moves) v"
  shows "arrayGet moves (jsMinus v 1) = Undefined"
proof (cases v)
  case (Num q)
  from assms(1) Num have hi: "q \<le> of_nat (length moves)"
    by (simp add: gate_passes_iff)
  from assms(2) Num hi have no: "\<not> (q = of_int \<lfloor>q\<rfloor> \<and> 1 \<le> q)"
    by simp
  have "\<not> (q - 1 = of_int \<lfloor>q - 1\<rfloor> \<and> 0 \<le> q - 1)"
  proof
    assume a: "q - 1 = of_int \<lfloor>q - 1\<rfloor> \<and> 0 \<le> q - 1"
    then have "q = of_int \<lfloor>q\<rfloor>"
      using integer_minus_one by blast
    moreover from a have "1 \<le> q"
      by simp
    ultimately show False
      using no by blast
  qed
  then have "\<not> (q - 1 = of_int \<lfloor>q - 1\<rfloor> \<and> 0 \<le> q - 1 \<and> q - 1 < of_nat (length moves))"
    by blast
  then have "arrayGet moves (Num (q - 1)) = Undefined"
    unfolding arrayGet.simps by (rule if_not_P)
  then show ?thesis
    using Num by simp
next
  case NaN
  with assms(1) show ?thesis by (simp add: gate_passes_iff)
next
  case NegInf
  with assms(1) show ?thesis by (simp add: gate_passes_iff)
next
  case PosInf
  with assms(1) show ?thesis by (simp add: gate_passes_iff)
qed

text \<open>The two ways a session ends in the error of an input that picks no move.\<close>

lemma rejected_at_gate:
  assumes "validMoveSet argv"
    and "0 \<le> randomIndex e 0 (length argv)"
    and "randomIndex e 0 (length argv) < int (length argv)"
    and "trim answer \<noteq> ''?''" and "trim answer \<noteq> ''0''"
    and "validateUserInput argv (toNumber e (trim answer)) \<noteq> Inr ()"
  shows "main e argv (start (answer # rest)) =
     \<lparr>stdin = rest,
      console =
        introLines (createHmac e ''sha3-256'' (randomBytes e 0 32)
                      (argv ! nat (randomIndex e 0 (length argv)))) argv
        @ [ErrorLine (InvalidInputError ChooseValidMoveText)],
      keysDrawn = 1, randomsDrawn = 1\<rparr>"
proof -
  from gate_rejects [OF assms(6)]
  have r: "validateUserInput argv (toNumber e (trim answer))
             = Inl (InvalidInputError ChooseValidMoveText)" .
  show ?thesis
    using assms(1-5) r
    by (simp add: main_accepts start_def playGame_answered handleError_def consoleLog_def Let_def)
qed

lemma rejected_by_resolver:
  assumes "validMoveSet argv"
    and "0 \<le> randomIndex e 0 (length argv)"
    and "randomIndex e 0 (length argv) < int (length argv)"
    and "trim answer \<noteq> ''?''" and "trim answer \<noteq> ''0''"
    and "validateUserInput argv (toNumber e (trim answer)) = Inr ()"
    and "\<not> picksMove (length argv) (toNumber e (trim answer))"
  shows "main e argv (start (answer # rest)) =
     \<lparr>stdin = rest,
      console =
        introLines (createHmac e ''sha3-256'' (randomBytes e 0 32)
                      (argv ! nat (randomIndex e 0 (length argv)))) argv
        @ [YourMoveLine Undefined,
           ComputerMoveLine (Str (argv ! nat (randomIndex e 0 (length argv)))),
           ErrorLine (InvalidInputError ChooseValidMoveText)],
      keysDrawn = 1, randomsDrawn = 1\<rparr>"
proof -
  from no_move_read [OF assms(6) assms(7)]
  have u: "arrayGet argv (jsMinus (toNumber e (trim answer)) 1) = Undefined" .
  show ?thesis
    using assms(1-6) u
    by (simp add: main_accepts start_def playGame_answered determineWinner_Undefined Let_def)
qed

lemma determineWinner_returns:
  assumes "h \<in> set moves" and "c \<in> set moves"
  shows "\<exists>result. determineWinner moves (Str h) (Str c) = Inr result"
  using indexOf_member [OF assms(1)] indexOf_member [OF assms(2)]
  by (simp add: determineWinner_def Let_def)

lemma arrayGet_integer:
  "0 \<le> r \<Longrightarrow> r < int (length xs) \<Longrightarrow> arrayGet xs (Num (of_int r)) = Str (xs ! nat r)"
  by simp

text \<open>The way a session goes on an input that picks a move.\<close>

lemma picked_move_is_played:
  assumes "validMoveSet argv"
    and "0 \<le> randomIndex e 0 (length argv)"
    and "randomIndex e 0 (length argv) < int (length argv)"
    and "trim answer \<noteq> ''?''" and "trim answer \<noteq> ''0''"
    and "picksMove (length argv) (toNumber e (trim answer))"
  shows "\<exists>result.
     determineWinner argv
       (Str (argv ! pickedPosition (toNumber e (trim answer))))
       (Str (argv ! nat (randomIndex e 0 (length argv)))) = Inr result
     \<and> main e argv (start (answer # rest)) =
       \<lparr>stdin = rest,
        console =
          introLines (createHmac e ''sha3-256'' (randomBytes e 0 32)
                        (argv ! nat (randomIndex e 0 (length argv)))) argv
          @ [YourMoveLine (Str (argv ! pickedPosition (toNumber e (trim answer)))),
             ComputerMoveLine (Str (argv ! nat (randomIndex e 0 (length argv)))),
             ResultLine result,
             HmacKeyLine (randomBytes e 0 32)],
        keysDrawn = 1, randomsDrawn = 1\<rparr>"
proof -
  from assms(6) obtain q where v: "toNumber e (trim answer) = Num q"
    and whole: "q = of_int \<lfloor>q\<rfloor>" and low: "1 \<le> q" and high: "q \<le> of_nat (length argv)"
    by (cases "toNumber e (trim answer)") simp_all
  define z where "z = \<lfloor>q\<rfloor>"
  from whole have q: "q = of_int z"
    by (simp only: z_def)
  from low have z1: "1 \<le> z"
    unfolding q by simp
  from high have "(of_int z :: rat) \<le> of_int (int (length argv))"
    unfolding q by simp
  then have zn: "z \<le> int (length argv)"
    by (simp only: of_int_le_iff)
  have pos: "pickedPosition (Num q) = nat (z - 1)"
    by (simp add: z_def)
  have pass: "validateUserInput argv (Num q) = Inr ()"
    using low high by (simp add: gate_passes_iff)
  have "q - 1 = of_int (z - 1)"
    unfolding q by simp
  then have "arrayGet argv (jsMinus (Num q) 1) = arrayGet argv (Num (of_int (z - 1)))"
    by simp
  also from z1 zn have "\<dots> = Str (argv ! nat (z - 1))"
    by (intro arrayGet_integer) simp_all
  finally have read: "arrayGet argv (jsMinus (Num q) 1) = Str (argv ! nat (z - 1))" .
  from z1 zn have "nat (z - 1) < length argv"
    by linarith
  then have h: "argv ! nat (z - 1) \<in> set argv"
    by (rule nth_mem)
  from assms(2,3) have "nat (randomIndex e 0 (length argv)) < length argv"
    by linarith
  then have c: "argv ! nat (randomIndex e 0 (length argv)) \<in> set argv"
    by (rule nth_mem)
  from determineWinner_returns [OF h c] obtain result
    where res: "determineWinner argv (Str (argv ! nat (z - 1)))
                  (Str (argv ! nat (randomIndex e 0 (length argv)))) = Inr result" ..
  have run: "main e argv (start (answer # rest)) =
       \<lparr>stdin = rest,
        console =
          introLines (createHmac e ''sha3-256'' (randomBytes e 0 32)
                        (argv ! nat (randomIndex e 0 (length argv)))) argv
          @ [YourMoveLine (Str (argv ! nat (z - 1))),
             ComputerMoveLine (Str (argv ! nat (randomIndex e 0 (length argv)))),
             ResultLine result,
             HmacKeyLine (randomBytes e 0 32)],
        keysDrawn = 1, randomsDrawn = 1\<rparr>"
    using assms(1-5) pass read res
    by (simp add: main_accepts start_def playGame_answered v Let_def)
  from res run show ?thesis
    unfolding v pos by blast
qed

text \<open>
  Claim C9, as stated, says that every input outside the recognised grammar (the digits
  \<^verbatim>\<open>1\<close> to \<^verbatim>\<open>N\<close>, \<^verbatim>\<open>0\<close> and \<^verbatim>\<open>?\<close>) raises the error and leaves the key unrevealed.
  The code converts the input by \<^verbatim>\<open>Number\<close>: the inputs \<^verbatim>\<open>01\<close> and \<^verbatim>\<open>1e0\<close> are
  outside the grammar and have the value 1, so the session plays Rock, resolves, and
  reveals the key.
\<close>

theorem inputs_outside_grammar_are_played:
  "main (testEnv 2) rpsls (start [''01'']) =
     \<lparr>stdin = [],
      console =
        introLines (testHmac ''sha3-256'' testKey ''Scissors'') rpsls
        @ [YourMoveLine (Str ''Rock''), ComputerMoveLine (Str ''Scissors''),
           ResultLine Lose, HmacKeyLine testKey],
      keysDrawn = 1, randomsDrawn = 1\<rparr>
   \<and> main (testEnv 2) rpsls (start [''1e0'']) =
     \<lparr>stdin = [],
      console =
        introLines (testHmac ''sha3-256'' testKey ''Scissors'') rpsls
        @ [YourMoveLine (Str ''Rock''), ComputerMoveLine (Str ''Scissors''),
           ResultLine Lose, HmacKeyLine testKey],
      keysDrawn = 1, randomsDrawn = 1\<rparr>"
  by (simp add: eval_defs)

text \<open>
  Claim C9, amended: for every input that, trimmed, is neither \<^verbatim>\<open>?\<close> nor \<^verbatim>\<open>0\<close>, the
  value of the input under \<^verbatim>\<open>Number\<close> decides. When the value is not an integer from 1
  to \<open>N\<close> (such as \<^verbatim>\<open>abc\<close>, \<^verbatim>\<open>-1\<close>, or \<^verbatim>\<open>99\<close> with \<open>N = 5\<close>), the session
  raises the error of an invalid input and ends without revealing the key: the error
  line is the last line written, and no line of the session shows a key; when the value
  passes the gate of \<^verbatim>\<open>validateUserInput\<close>, the lines of the two moves are written
  before the error. When the value is an integer from 1 to \<open>N\<close>, whatever the spelling
  of the input (such as \<^verbatim>\<open>01\<close> or \<^verbatim>\<open>1e0\<close>, outside the digit grammar), the input is
  played as the move at that position: the resolver returns a result, and the session
  writes the two moves and the result and reveals the key.
\<close>

theorem input_is_played_iff_it_picks_a_move:
  assumes "validMoveSet argv"
    and "0 \<le> randomIndex e 0 (length argv)"
    and "randomIndex e 0 (length argv) < int (length argv)"
    and "trim answer \<noteq> ''?''" and "trim answer \<noteq> ''0''"
  shows "(\<not> picksMove (length argv) (toNumber e (trim answer)) \<longrightarrow>
      main e argv (start (answer # rest)) =
        \<lparr>stdin = rest,
         console =
           introLines (createHmac e ''sha3-256'' (randomBytes e 0 32)
                         (argv ! nat (randomIndex e 0 (length argv)))) argv
           @ (if validateUserInput argv (toNumber e (trim answer)) = Inr ()
              then [YourMoveLine Undefined,
                    ComputerMoveLine (Str (argv ! nat (randomIndex e 0 (length argv))))]
              else [])
           @ [ErrorLine (InvalidInputError ChooseValidMoveText)],
         keysDrawn = 1, randomsDrawn = 1\<rparr>
      \<and> (\<forall>k. HmacKeyLine k \<notin> set (console (main e argv (start (answer # rest))))))
    \<and> (picksMove (length argv) (toNumber e (trim answer)) \<longrightarrow>
      (\<exists>result.
         determineWinner argv
           (Str (argv ! pickedPosition (toNumber e (trim answer))))
           (Str (argv ! nat (randomIndex e 0 (length argv)))) = Inr result
         \<and> main e argv (start (answer # rest)) =
           \<lparr>stdin = rest,
            console =
              introLines (createHmac e ''sha3-256'' (randomBytes e 0 32)
                            (argv ! nat (randomIndex e 0 (length argv)))) argv
              @ [YourMoveLine (Str (argv ! pickedPosition (toNumber e (trim answer)))),
                 ComputerMoveLine (Str (argv ! nat (randomIndex e 0 (length argv)))),
                 ResultLine result,
                 HmacKeyLine (randomBytes e 0 32)],
            keysDrawn = 1, randomsDrawn = 1\<rparr>))"
proof (rule conjI; rule impI)
  assume no: "\<not> picksMove (length argv) (toNumber e (trim answer))"
  show "main e argv (start (answer # rest)) =
        \<lparr>stdin = rest,
         console =
           introLines (createHmac e ''sha3-256'' (randomBytes e 0 32)
                         (argv ! nat (randomIndex e 0 (length argv)))) argv
           @ (if validateUserInput argv (toNumber e (trim answer)) = Inr ()
              then [YourMoveLine Undefined,
                    ComputerMoveLine (Str (argv ! nat (randomIndex e 0 (length argv))))]
              else [])
           @ [ErrorLine (InvalidInputError ChooseValidMoveText)],
         keysDrawn = 1, randomsDrawn = 1\<rparr>
      \<and> (\<forall>k. HmacKeyLine k \<notin> set (console (main e argv (start (answer # rest)))))"
  proof (cases "validateUserInput argv (toNumber e (trim answer)) = Inr ()")
    case True
    show ?thesis
      using True
      by (simp add: rejected_by_resolver [OF assms(1-5) True no] key_notin_introLines)
  next
    case False
    show ?thesis
      using False
      by (simp add: rejected_at_gate [OF assms(1-5) False] key_notin_introLines)
  qed
next
  assume "picksMove (length argv) (toNumber e (trim answer))"
  then show "\<exists>result.
         determineWinner argv
           (Str (argv ! pickedPosition (toNumber e (trim answer))))
           (Str (argv ! nat (randomIndex e 0 (length argv)))) = Inr result
         \<and> main e argv (start (answer # rest)) =
           \<lparr>stdin = rest,
            console =
              introLines (createHmac e ''sha3-256'' (randomBytes e 0 32)
                            (argv ! nat (randomIndex e 0 (length argv)))) argv
              @ [YourMoveLine (Str (argv ! pickedPosition (toNumber e (trim answer)))),
                 ComputerMoveLine (Str (argv ! nat (randomIndex e 0 (length argv)))),
                 ResultLine result,
                 HmacKeyLine (randomBytes e 0 32)],
            keysDrawn = 1, randomsDrawn = 1\<rparr>"
    by (rule picked_move_is_played [OF assms(1-5)])
qed

theorem input_is_played_iff_it_picks_a_move_witness:
  "validMoveSet rpsls \<and> 0 \<le> randomIndex (testEnv 2) 0 (length rpsls)
   \<and> randomIndex (testEnv 2) 0 (length rpsls) < int (length rpsls)
   \<and> trim ''abc'' \<noteq> ''?'' \<and> trim ''abc'' \<noteq> ''0''
   \<and> \<not> picksMove (length rpsls) (toNumber (testEnv 2) (trim ''abc''))
   \<and> trim ''-1'' \<noteq> ''?'' \<and> trim ''-1'' \<noteq> ''0''
   \<and> \<not> picksMove (length rpsls) (toNumber (testEnv 2) (trim ''-1''))
   \<and> trim ''99'' \<noteq> ''?'' \<and> trim ''99'' \<noteq> ''0''
   \<and> \<not> picksMove (length rpsls) (toNumber (testEnv 2) (trim ''99''))
   \<and> trim ''02'' \<noteq> ''?'' \<and> trim ''02'' \<noteq> ''0''
   \<and> picksMove (length rpsls) (toNumber (testEnv 2) (trim ''02''))
   \<and> console (main (testEnv 2) rpsls (start [''abc''])) =
        introLines (testHmac ''sha3-256'' testKey ''Scissors'') rpsls
        @ [ErrorLine (InvalidInputError ChooseValidMoveText)]
   \<and> console (main (testEnv 2) rpsls (start [''-1''])) =
        introLines (testHmac ''sha3-256'' testKey ''Scissors'') rpsls
        @ [ErrorLine (InvalidInputError ChooseValidMoveText)]
   \<and> console (main (testEnv 2) rpsls (start [''99''])) =
        introLines (testHmac ''sha3-256'' testKey ''Scissors'') rpsls
        @ [ErrorLine (InvalidInputError ChooseValidMoveText)]
   \<and> (\<forall>k. HmacKeyLine k \<notin> set (console (main (testEnv 2) rpsls (start [''abc'']))))
   \<and> (\<forall>k. HmacKeyLine k \<notin> set (console (main (testEnv 2) rpsls (start [''-1'']))))
   \<and> (\<forall>k. HmacKeyLine k \<notin> set (console (main (testEnv 2) rpsls (start [''99'']))))
   \<and> console (main (testEnv 2) rpsls (start [''02''])) =
        introLines (testHmac ''sha3-256'' testKey ''Scissors'') rpsls
        @ [YourMoveLine (Str ''Paper''), ComputerMoveLine (Str ''Scissors''),
           ResultLine Lose, HmacKeyLine testKey]"
proof -
  have v: "validMoveSet rpsls"
    by (simp add: validMoveSet_def rpsls_def)
  have lo: "0 \<le> randomIndex (testEnv 2) 0 (length rpsls)"
    and hi: "randomIndex (testEnv 2) 0 (length rpsls) < int (length rpsls)"
    by (simp_all add: testEnv_def rpsls_def)
  have a: "trim ''abc'' \<noteq> ''?''" "trim ''abc'' \<noteq> ''0''"
    and na: "\<not> picksMove (length rpsls) (toNumber (testEnv 2) (trim ''abc''))"
    by (simp_all add: eval_defs)
  have b: "trim ''-1'' \<noteq> ''?''" "trim ''-1'' \<noteq> ''0''"
    and nb: "\<not> picksMove (length rpsls) (toNumber (testEnv 2) (trim ''-1''))"
    by (simp_all add: eval_defs)
  have c: "trim ''99'' \<noteq> ''?''" "trim ''99'' \<noteq> ''0''"
    and nc: "\<not> picksMove (length rpsls) (toNumber (testEnv 2) (trim ''99''))"
    by (simp_all add: eval_defs)
  have p: "trim ''02'' \<noteq> ''?''" "trim ''02'' \<noteq> ''0''"
    and pp: "picksMove (length rpsls) (toNumber (testEnv 2) (trim ''02''))"
    by (simp_all add: eval_defs)
  have g: "validateUserInput rpsls (toNumber (testEnv 2) (trim ''abc'')) \<noteq> Inr ()"
    "validateUserInput rpsls (toNumber (testEnv 2) (trim ''-1'')) \<noteq> Inr ()"
    "validateUserInput rpsls (toNumber (testEnv 2) (trim ''99'')) \<noteq> Inr ()"
    by (simp_all add: eval_defs)
  have d: "createHmac (testEnv 2) ''sha3-256'' (randomBytes (testEnv 2) 0 32)
             (rpsls ! nat (randomIndex (testEnv 2) 0 (length rpsls)))
           = testHmac ''sha3-256'' testKey ''Scissors''"
    "rpsls ! nat (randomIndex (testEnv 2) 0 (length rpsls)) = ''Scissors''"
    "randomBytes (testEnv 2) 0 32 = testKey"
    "createHmac (testEnv 2) = testHmac"
    by (simp_all add: testEnv_def rpsls_def)
  have m: "rpsls ! pickedPosition (toNumber (testEnv 2) (trim ''02'')) = ''Paper''"
    by (simp add: eval_defs)
  have w: "determineWinner rpsls (Str ''Paper'') (Str ''Scissors'') = Inr Lose"
    by (simp add: resolver_defs rpsls_def)
  note A = input_is_played_iff_it_picks_a_move [OF v lo hi a, of "[]"]
  note B = input_is_played_iff_it_picks_a_move [OF v lo hi b, of "[]"]
  note C = input_is_played_iff_it_picks_a_move [OF v lo hi c, of "[]"]
  note D = input_is_played_iff_it_picks_a_move [OF v lo hi p, of "[]"]
  from D pp obtain result
    where "determineWinner rpsls
             (Str (rpsls ! pickedPosition (toNumber (testEnv 2) (trim ''02''))))
             (Str (rpsls ! nat (randomIndex (testEnv 2) 0 (length rpsls)))) = Inr result"
      and run: "main (testEnv 2) rpsls (start [''02'']) =
           \<lparr>stdin = [],
            console =
              introLines (createHmac (testEnv 2) ''sha3-256'' (randomBytes (testEnv 2) 0 32)
                            (rpsls ! nat (randomIndex (testEnv 2) 0 (length rpsls)))) rpsls
              @ [YourMoveLine (Str (rpsls ! pickedPosition (toNumber (testEnv 2) (trim ''02'')))),
                 ComputerMoveLine (Str (rpsls ! nat (randomIndex (testEnv 2) 0 (length rpsls)))),
                 ResultLine result,
                 HmacKeyLine (randomBytes (testEnv 2) 0 32)],
            keysDrawn = 1, randomsDrawn = 1\<rparr>"
    by blast
  then have "result = Lose"
    by (simp only: m d w sum.inject)
  with run have played: "console (main (testEnv 2) rpsls (start [''02''])) =
        introLines (testHmac ''sha3-256'' testKey ''Scissors'') rpsls
        @ [YourMoveLine (Str ''Paper''), ComputerMoveLine (Str ''Scissors''),
           ResultLine Lose, HmacKeyLine testKey]"
    by (simp add: m d)
  show ?thesis
    using v lo hi a b c p na nb nc pp A B C g d played
    by (simp add: key_notin_introLines)
qed

text \<open>
  Claim C10: the gate of \<^verbatim>\<open>validateUserInput\<close> rejects only the values that are
  \<^verbatim>\<open>NaN\<close>, negative or greater than \<open>N\<close>, that is, it lets through exactly the finite
  values from 0 to \<open>N\<close>. Every input whose value lies in that range without being an
  integer from 1 to \<open>N\<close> (the empty input, \<^verbatim>\<open>00\<close>, \<^verbatim>\<open>2.5\<close>), other than the exit
  input \<^verbatim>\<open>0\<close> itself, passes the gate; the move read from the array is then
  \<^verbatim>\<open>undefined\<close>, the resolver raises the error of an invalid input for it, and the
  session ends with that error after the lines of the two moves, the key unrevealed. The
  conversion of the environment is taken to give \<^verbatim>\<open>NaN\<close> for \<^verbatim>\<open>?\<close>, as
  \<^verbatim>\<open>Number\<close> does, so that no input of the claim is the request for help.
\<close>

theorem gate_lets_through_inputs_that_pick_no_move:
  assumes "validMoveSet argv"
    and "0 \<le> randomIndex e 0 (length argv)"
    and "randomIndex e 0 (length argv) < int (length argv)"
    and "toNumber e ''?'' = NaN" and "trim answer \<noteq> ''0''"
    and "toNumber e (trim answer) = Num q"
    and "0 \<le> q" and "q \<le> of_nat (length argv)"
    and "\<not> (q = of_int \<lfloor>q\<rfloor> \<and> 1 \<le> q)"
  shows "(validateUserInput argv v = Inr ()) = (\<exists>x. v = Num x \<and> 0 \<le> x \<and> x \<le> of_nat (length argv))
    \<and> validateUserInput argv (toNumber e (trim answer)) = Inr ()
    \<and> arrayGet argv (jsMinus (toNumber e (trim answer)) 1) = Undefined
    \<and> determineWinner argv Undefined (Str (argv ! nat (randomIndex e 0 (length argv))))
        = Inl (InvalidInputError ChooseValidMoveText)
    \<and> main e argv (start (answer # rest)) =
        \<lparr>stdin = rest,
         console =
           introLines (createHmac e ''sha3-256'' (randomBytes e 0 32)
                         (argv ! nat (randomIndex e 0 (length argv)))) argv
           @ [YourMoveLine Undefined,
              ComputerMoveLine (Str (argv ! nat (randomIndex e 0 (length argv)))),
              ErrorLine (InvalidInputError ChooseValidMoveText)],
         keysDrawn = 1, randomsDrawn = 1\<rparr>
    \<and> (\<forall>k. HmacKeyLine k \<notin> set (console (main e argv (start (answer # rest)))))"
proof -
  have gate: "(validateUserInput argv v = Inr ())
                = (\<exists>x. v = Num x \<and> 0 \<le> x \<and> x \<le> of_nat (length argv))"
    by (cases v) (simp_all add: gate_passes_iff)
  have nq: "trim answer \<noteq> ''?''"
    using assms(4,6) by auto
  have pass: "validateUserInput argv (toNumber e (trim answer)) = Inr ()"
    using assms(6-8) by (simp add: gate_passes_iff)
  have none: "\<not> picksMove (length argv) (toNumber e (trim answer))"
    using assms(6,9) by auto
  note run = rejected_by_resolver [OF assms(1-3) nq assms(5) pass none]
  show ?thesis
    using gate pass no_move_read [OF pass none]
    by (simp add: run determineWinner_Undefined key_notin_introLines)
qed

theorem gate_lets_through_inputs_that_pick_no_move_witness:
  "validMoveSet rpsls \<and> 0 \<le> randomIndex (testEnv 2) 0 (length rpsls)
   \<and> randomIndex (testEnv 2) 0 (length rpsls) < int (length rpsls)
   \<and> toNumber (testEnv 2) ''?'' = NaN
   \<and> trim '''' \<noteq> ''0''
   \<and> toNumber (testEnv 2) (trim '''') = Num 0
   \<and> trim ''00'' \<noteq> ''0''
   \<and> toNumber (testEnv 2) (trim ''00'') = Num 0
   \<and> trim ''2.5'' \<noteq> ''0''
   \<and> toNumber (testEnv 2) (trim ''2.5'') = Num (5 / 2)
   \<and> (0::rat) \<le> 0 \<and> (0::rat) \<le> of_nat (length rpsls)
   \<and> \<not> ((0::rat) = of_int \<lfloor>0::rat\<rfloor> \<and> (1::rat) \<le> 0)
   \<and> (0::rat) \<le> 5 / 2 \<and> (5 / 2 :: rat) \<le> of_nat (length rpsls)
   \<and> \<not> ((5 / 2 :: rat) = of_int \<lfloor>5 / 2 :: rat\<rfloor> \<and> (1::rat) \<le> 5 / 2)
   \<and> validateUserInput rpsls (Number '''') = Inr ()
   \<and> validateUserInput rpsls (Number ''00'') = Inr ()
   \<and> validateUserInput rpsls (Number ''2.5'') = Inr ()
   \<and> console (main (testEnv 2) rpsls (start [''''])) =
        introLines (testHmac ''sha3-256'' testKey ''Scissors'') rpsls
        @ [YourMoveLine Undefined, ComputerMoveLine (Str ''Scissors''),
           ErrorLine (InvalidInputError ChooseValidMoveText)]
   \<and> console (main (testEnv 2) rpsls (start [''00''])) =
        introLines (testHmac ''sha3-256'' testKey ''Scissors'') rpsls
        @ [YourMoveLine Undefined, ComputerMoveLine (Str ''Scissors''),
           ErrorLine (InvalidInputError ChooseValidMoveText)]
   \<and> console (main (testEnv 2) rpsls (start [''2.5''])) =
        introLines (testHmac ''sha3-256'' testKey ''Scissors'') rpsls
        @ [YourMoveLine Undefined, ComputerMoveLine (Str ''Scissors''),
           ErrorLine (InvalidInputError ChooseValidMoveText)]
   \<and> (\<forall>k. HmacKeyLine k \<notin> set (console (main (testEnv 2) rpsls (start [''''])))) 
   \<and> (\<forall>k. HmacKeyLine k \<notin> set (console (main (testEnv 2) rpsls (start [''00''])))) 
   \<and> (\<forall>k. HmacKeyLine k \<notin> set (console (main (testEnv 2) rpsls (start [''2.5'']))))"
proof -
  have v: "validMoveSet rpsls"
    by (simp add: validMoveSet_def rpsls_def)
  have lo: "0 \<le> randomIndex (testEnv 2) 0 (length rpsls)"
    and hi: "randomIndex (testEnv 2) 0 (length rpsls) < int (length rpsls)"
    by (simp_all add: testEnv_def rpsls_def)
  have nan: "toNumber (testEnv 2) ''?'' = NaN"
    by (simp add: eval_defs)
  have a: "trim '''' \<noteq> ''0''"
    "toNumber (testEnv 2) (trim '''') = Num 0"
    by (simp_all add: eval_defs)
  have b: "trim ''00'' \<noteq> ''0''"
    "toNumber (testEnv 2) (trim ''00'') = Num 0"
    by (simp_all add: eval_defs)
  have c: "trim ''2.5'' \<noteq> ''0''"
    "toNumber (testEnv 2) (trim ''2.5'') = Num (5 / 2)"
    by (simp_all add: eval_defs)
  have z: "(0::rat) \<le> 0" "(0::rat) \<le> of_nat (length rpsls)"
    "\<not> ((0::rat) = of_int \<lfloor>0::rat\<rfloor> \<and> (1::rat) \<le> 0)"
    by (simp_all add: rpsls_def)
  have fl: "\<lfloor>5 / 2 :: rat\<rfloor> = 2"
    by (simp add: floor_eq_iff)
  have h: "(0::rat) \<le> 5 / 2" "(5 / 2 :: rat) \<le> of_nat (length rpsls)"
    "\<not> ((5 / 2 :: rat) = of_int \<lfloor>5 / 2 :: rat\<rfloor> \<and> (1::rat) \<le> 5 / 2)"
    by (simp_all add: rpsls_def fl)
  have n: "Number '''' = Num 0" "Number ''00'' = Num 0" "Number ''2.5'' = Num (5 / 2)"
    using a(2) b(2) c(2) by (simp_all add: testEnv_def trim_def isSpace_def)
  have d: "createHmac (testEnv 2) ''sha3-256'' (randomBytes (testEnv 2) 0 32)
             (rpsls ! nat (randomIndex (testEnv 2) 0 (length rpsls)))
           = testHmac ''sha3-256'' testKey ''Scissors''"
    "rpsls ! nat (randomIndex (testEnv 2) 0 (length rpsls)) = ''Scissors''"
    by (simp_all add: testEnv_def rpsls_def)
  note A = gate_lets_through_inputs_that_pick_no_move [OF v lo hi nan a z, of _ "[]"]
  note B = gate_lets_through_inputs_that_pick_no_move [OF v lo hi nan b z, of _ "[]"]
  note C = gate_lets_through_inputs_that_pick_no_move [OF v lo hi nan c h, of _ "[]"]
  show ?thesis
    using v lo hi nan a b c z h A B C n d
    by (simp add: key_notin_introLines)
qed

text \<open>The sessions that end before the user has answered.\<close>

lemma playGame_without_move:
  assumes "\<not> (0 \<le> randomIndex e (randomsDrawn w) (length moves)
             \<and> randomIndex e (randomsDrawn w) (length moves) < int (length moves))"
  shows "console (playGame e game moves w) = console w @ [ErrorLine TypeError]"
proof -
  have "arrayGet moves (Num (of_int (randomIndex e (randomsDrawn w) (length moves))))
          = Undefined"
    using assms by auto
  then show ?thesis
    by (simp add: playGame_def generateHMAC_def handleError_def consoleLog_def)
qed

lemma playGame_without_answer:
  assumes "0 \<le> randomIndex e (randomsDrawn w) (length moves)"
    and "randomIndex e (randomsDrawn w) (length moves) < int (length moves)"
    and "stdin w = []"
  shows "console (playGame e game moves w) =
           console w @ introLines (createHmac e ''sha3-256'' (hmacKey game)
             (moves ! nat (randomIndex e (randomsDrawn w) (length moves)))) moves"
  using assms
  by (simp add: playGame_def generateHMAC_def promptUser_def printAvailableMoves_def
      printGameIntro_def consoleLog_def introLines_def Let_def)

text \<open>
  Claim C5: in a session that reveals a key \<open>k\<close>, the digest shown before the question
  for the human's move is \<open>createHmac e ''sha3-256'' k c\<close>, the keyed hash under
  \<^verbatim>\<open>sha3-256\<close> with key \<open>k\<close> of the move \<open>c\<close> announced as the computer's move, so
  recomputing the HMAC from the revealed key and the announced move gives the digest
  shown. The key revealed is the one key the session drew. The lines of the session are,
  in this order: the intro with the digest and the question, then the two moves, the
  result, and the key.
\<close>

theorem revealed_key_reproduces_commitment:
  assumes "HmacKeyLine k \<in> set (console (main e argv (start input)))"
  shows "\<exists>c h result.
           console (main e argv (start input)) =
             introLines (createHmac e ''sha3-256'' k c) argv
             @ [YourMoveLine (Str h), ComputerMoveLine (Str c), ResultLine result,
                HmacKeyLine k]
           \<and> c \<in> set argv
           \<and> k = randomBytes e 0 32
           \<and> keysDrawn (main e argv (start input)) = 1"
proof (cases "validMoveSet argv")
  case False
  with assms show ?thesis
    by (simp add: main_rejects consoleLog_def start_def)
next
  case valid: True
  define w where "w = (start input)\<lparr>keysDrawn := Suc (keysDrawn (start input))\<rparr>"
  define game where "game = \<lparr>gameMoves = argv, hmacKey = randomBytes e 0 32\<rparr>"
  define r where "r = randomIndex e 0 (length argv)"
  have run: "main e argv (start input) = playGame e game argv w"
    using valid by (simp add: main_accepts w_def game_def start_def)
  have w: "console w = []" "randomsDrawn w = 0" "stdin w = input" "keysDrawn w = 1"
    by (simp_all add: w_def start_def)
  show ?thesis
  proof (cases "0 \<le> r \<and> r < int (length argv)")
    case False
    with assms show ?thesis
      using playGame_without_move [of e w argv game]
      by (simp add: run w r_def)
  next
    case True
    then have lo: "0 \<le> randomIndex e (randomsDrawn w) (length argv)"
      and hi: "randomIndex e (randomsDrawn w) (length argv) < int (length argv)"
      by (simp_all add: w r_def)
    from True have "nat r < length argv"
      by linarith
    then have mem: "argv ! nat r \<in> set argv"
      by (rule nth_mem)
    show ?thesis
    proof (cases input)
      case Nil
      then have "stdin w = []"
        by (simp add: w)
      from playGame_without_answer [OF lo hi this, of game]
      have "HmacKeyLine k \<notin> set (console (main e argv (start input)))"
        by (simp add: run w key_notin_introLines)
      with assms show ?thesis
        by simp
    next
      case (Cons answer rest)
      then have s: "stdin w = answer # rest"
        by (simp add: w)
      note step = playGame_answered [OF lo hi s, of game]
      show ?thesis
      proof (cases "determineWinner argv
                      (arrayGet argv (jsMinus (toNumber e (trim answer)) 1))
                      (Str (argv ! nat r))")
        case (Inl err)
        with assms show ?thesis
          unfolding run step
          by (simp add: w r_def game_def Let_def key_notin_introLines
              key_in_displayHelp consoleLog_def handleError_def
              split: if_splits sum.splits)
      next
        case (Inr result)
        then obtain h where h: "arrayGet argv (jsMinus (toNumber e (trim answer)) 1) = Str h"
          by (cases "arrayGet argv (jsMinus (toNumber e (trim answer)) 1)")
            (simp_all add: determineWinner_Undefined)
        from assms Inr h mem show ?thesis
          unfolding run step
          by (simp add: w r_def game_def Let_def key_notin_introLines
              key_in_displayHelp consoleLog_def handleError_def
              split: if_splits sum.splits)
      qed
    qed
  qed
qed

theorem revealed_key_reproduces_commitment_witness:
  "HmacKeyLine testKey \<in> set (console (main (testEnv 2) rpsls (start [''1''])))
   \<and> (\<exists>c h result.
         console (main (testEnv 2) rpsls (start [''1''])) =
           introLines (createHmac (testEnv 2) ''sha3-256'' testKey c) rpsls
           @ [YourMoveLine (Str h), ComputerMoveLine (Str c), ResultLine result,
              HmacKeyLine testKey]
         \<and> c \<in> set rpsls
         \<and> testKey = randomBytes (testEnv 2) 0 32
         \<and> keysDrawn (main (testEnv 2) rpsls (start [''1''])) = 1)"
proof -
  have "main (testEnv 2) rpsls (start [''1'']) =
     \<lparr>stdin = [],
      console =
        introLines (testHmac ''sha3-256'' testKey ''Scissors'') rpsls
        @ [YourMoveLine (Str ''Rock''), ComputerMoveLine (Str ''Scissors''),
           ResultLine Lose, HmacKeyLine testKey],
      keysDrawn = 1, randomsDrawn = 1\<rparr>"
    by (simp add: eval_defs)
  then have k: "HmacKeyLine testKey \<in> set (console (main (testEnv 2) rpsls (start [''1''])))"
    by simp
  show ?thesis
    using k revealed_key_reproduces_commitment [OF k] by blast
qed

end
